theory Spec2Isabelle
  imports Main
begin

section \<open>Python strings, restricted to code points below 256\<close>

text \<open>
  The script \<^verbatim>\<open>tools/dump_offsets.py\<close> works on Python \<^verbatim>\<open>str\<close> values. Here a
  \<^typ>\<open>string\<close> stands for a \<^verbatim>\<open>str\<close> all of whose code points are below 256: the
  character with code \<open>n\<close> is the code point \<open>U+00n\<close>. On this range the library
  functions the script calls are determined by the tables below (white space, line
  boundaries, decimal digits); code points from 256 on are outside the model.
\<close>

definition isspace :: "char \<Rightarrow> bool" where
  \<comment> \<open>\<^verbatim>\<open>str.isspace\<close>, the separator set of \<^verbatim>\<open>str.split()\<close>\<close>
  "isspace c =
     (let n = (of_char c :: nat)
      in (9 \<le> n \<and> n \<le> 13) \<or> (28 \<le> n \<and> n \<le> 32) \<or> n = 133 \<or> n = 160)"

definition is_linebreak :: "char \<Rightarrow> bool" where
  \<comment> \<open>the line boundaries of \<^verbatim>\<open>str.splitlines()\<close>\<close>
  "is_linebreak c =
     (let n = (of_char c :: nat)
      in (10 \<le> n \<and> n \<le> 13) \<or> (28 \<le> n \<and> n \<le> 30) \<or> n = 133)"

definition isdigit :: "char \<Rightarrow> bool" where
  \<comment> \<open>what \<^verbatim>\<open>\d\<close> matches in a \<^verbatim>\<open>str\<close> pattern\<close>
  "isdigit c = (let n = (of_char c :: nat) in 48 \<le> n \<and> n \<le> 57)"

definition startswith :: "string \<Rightarrow> string \<Rightarrow> bool" where
  "startswith s p = (take (length p) s = p)"

subsection \<open>\<^verbatim>\<open>str.splitlines()\<close>\<close>

text \<open>
  The text is cut at every line boundary; carriage return followed by line feed is one
  boundary; a last line with no boundary after it is kept when it is not empty.
\<close>

fun splitlines_from :: "string \<Rightarrow> string \<Rightarrow> string list" where
  "splitlines_from cur [] = (if cur = [] then [] else [cur])"
| "splitlines_from cur (c # cs) =
     (if is_linebreak c then
        (case cs of
           d # ds \<Rightarrow>
             if c = CHR 0x0D \<and> d = CHR 0x0A then cur # splitlines_from [] ds
             else cur # splitlines_from [] cs
         | [] \<Rightarrow> cur # splitlines_from [] cs)
      else splitlines_from (cur @ [c]) cs)"

definition splitlines :: "string \<Rightarrow> string list" where
  "splitlines s = splitlines_from [] s"

subsection \<open>\<^verbatim>\<open>str.split()\<close> with no argument\<close>

text \<open>The tokens are the maximal runs of characters that are not white space.\<close>

fun split_from :: "string \<Rightarrow> string \<Rightarrow> string list" where
  "split_from cur [] = (if cur = [] then [] else [cur])"
| "split_from cur (c # cs) =
     (if isspace c then (if cur = [] then split_from [] cs else cur # split_from [] cs)
      else split_from (cur @ [c]) cs)"

definition split :: "string \<Rightarrow> string list" where
  "split s = split_from [] s"

section \<open>Exceptions\<close>

datatype exn = ValueError | OSError | IndexError

section \<open>\<^verbatim>\<open>int(s, 16)\<close> and \<^verbatim>\<open>hex(n)\<close>\<close>

text \<open>
  \<^verbatim>\<open>int(s, 16)\<close> strips the white space around \<open>s\<close>, reads an optional sign, an
  optional prefix \<^verbatim>\<open>0x\<close> or \<^verbatim>\<open>0X\<close> (one underscore may follow it), then hexadecimal
  digits in which single underscores may separate digits. Anything else raises
  \<^verbatim>\<open>ValueError\<close>. The white space it strips is narrower than \<^const>\<open>isspace\<close>: the
  separators \<open>U+001C\<close> to \<open>U+001F\<close> are not stripped.
\<close>

definition is_int_space :: "char \<Rightarrow> bool" where
  "is_int_space c =
     (let n = (of_char c :: nat) in (9 \<le> n \<and> n \<le> 13) \<or> n = 32 \<or> n = 133 \<or> n = 160)"

definition digit_value :: "char \<Rightarrow> nat option" where
  "digit_value c =
     (let n = (of_char c :: nat)
      in if 48 \<le> n \<and> n \<le> 57 then Some (n - 48)
         else if 97 \<le> n \<and> n \<le> 102 then Some (n - 87)
         else if 65 \<le> n \<and> n \<le> 70 then Some (n - 55)
         else None)"

text \<open>
  \<open>scan_digits acc us s\<close> reads digits and underscores from \<open>s\<close>; \<open>us\<close> says that
  the character before was an underscore. It stops at the first character that is
  neither and returns the value read with the rest of the text; two underscores in a row
  and an underscore in last place are syntax errors (\<open>None\<close>).
\<close>

fun scan_digits :: "int \<Rightarrow> bool \<Rightarrow> string \<Rightarrow> (int \<times> string) option" where
  "scan_digits acc us [] = (if us then None else Some (acc, []))"
| "scan_digits acc us (c # cs) =
     (if c = CHR ''_'' then (if us then None else scan_digits acc True cs)
      else case digit_value c of
             Some d \<Rightarrow> scan_digits (16 * acc + int d) False cs
           | None \<Rightarrow> if us then None else Some (acc, c # cs))"

definition skip_sign :: "string \<Rightarrow> bool \<times> string" where
  "skip_sign s =
     (case s of
        [] \<Rightarrow> (False, s)
      | c # cs \<Rightarrow>
          if c = CHR ''+'' then (False, cs)
          else if c = CHR ''-'' then (True, cs)
          else (False, s))"

definition skip_prefix :: "string \<Rightarrow> string" where
  "skip_prefix s =
     (case s of
        z # x # cs \<Rightarrow>
          if z = CHR ''0'' \<and> (x = CHR ''x'' \<or> x = CHR ''X'')
          then (case cs of u # cs' \<Rightarrow> if u = CHR ''_'' then cs' else cs | [] \<Rightarrow> cs)
          else s
      | _ \<Rightarrow> s)"

definition py_int16 :: "string \<Rightarrow> exn + int" where
  "py_int16 s =
     (let (neg, s2) = skip_sign (dropWhile is_int_space s);
          s3 = skip_prefix s2
      in case s3 of
           [] \<Rightarrow> Inl ValueError
         | c # _ \<Rightarrow>
             if digit_value c = None then Inl ValueError
             else (case scan_digits 0 False s3 of
                     None \<Rightarrow> Inl ValueError
                   | Some (v, rest) \<Rightarrow>
                       if dropWhile is_int_space rest = []
                       then Inr (if neg then - v else v)
                       else Inl ValueError))"

definition hexdigit :: "nat \<Rightarrow> char" where
  "hexdigit d = ''0123456789abcdef'' ! d"

function hex_nat :: "nat \<Rightarrow> string" where
  "hex_nat n = (if n < 16 then [hexdigit n] else hex_nat (n div 16) @ [hexdigit (n mod 16)])"
  by pat_completeness auto
termination
  by (relation "measure id") auto

declare hex_nat.simps [simp del]

definition py_hex :: "int \<Rightarrow> string" where
  \<comment> \<open>\<^verbatim>\<open>hex(n)\<close>: a minus sign for a negative number, then \<^verbatim>\<open>0x\<close> and the digits of \<open>|n|\<close>\<close>
  "py_hex n = (if n < 0 then ''-0x'' @ hex_nat (nat (- n)) else ''0x'' @ hex_nat (nat n))"

section \<open>Regular-expression searches\<close>

text \<open>
  The two patterns of the script are \<^verbatim>\<open>version (\d+\.\d+\.\d+)\<close> and
  \<^verbatim>\<open>liblldb\.(\d+\.\d+\.\d+)\.dylib\<close>. In both, every \<^verbatim>\<open>\d+\<close> is followed by
  something no digit matches (a dot, or nothing), so at a given start the greedy run of
  digits is the only one that can lead to a match and no backtracking is needed.
  \<^verbatim>\<open>re.search\<close> returns the match at the leftmost start that has one; the functions
  below return its group 1.
\<close>

definition match_lit :: "string \<Rightarrow> string \<Rightarrow> string option" where
  "match_lit p s = (if startswith s p then Some (drop (length p) s) else None)"

definition match_digits :: "string \<Rightarrow> (string \<times> string) option" where
  "match_digits s =
     (let ds = takeWhile isdigit s
      in if ds = [] then None else Some (ds, dropWhile isdigit s))"

definition match_triple :: "string \<Rightarrow> (string \<times> string) option" where
  "match_triple s =
     (case match_digits s of None \<Rightarrow> None | Some (a, s1) \<Rightarrow>
      case match_lit ''.'' s1 of None \<Rightarrow> None | Some s2 \<Rightarrow>
      case match_digits s2 of None \<Rightarrow> None | Some (b, s3) \<Rightarrow>
      case match_lit ''.'' s3 of None \<Rightarrow> None | Some s4 \<Rightarrow>
      case match_digits s4 of None \<Rightarrow> None | Some (c, s5) \<Rightarrow>
        Some (a @ ''.'' @ b @ ''.'' @ c, s5))"

definition match_version_at :: "string \<Rightarrow> string option" where
  "match_version_at s =
     (case match_lit ''version '' s of None \<Rightarrow> None | Some s1 \<Rightarrow>
      case match_triple s1 of None \<Rightarrow> None | Some (g, s2) \<Rightarrow> Some g)"

definition match_libname_at :: "string \<Rightarrow> string option" where
  "match_libname_at s =
     (case match_lit ''liblldb.'' s of None \<Rightarrow> None | Some s1 \<Rightarrow>
      case match_triple s1 of None \<Rightarrow> None | Some (g, s2) \<Rightarrow>
      case match_lit ''.dylib'' s2 of None \<Rightarrow> None | Some s3 \<Rightarrow> Some g)"

fun re_search :: "(string \<Rightarrow> 'a option) \<Rightarrow> string \<Rightarrow> 'a option" where
  "re_search m [] = m []"
| "re_search m (c # cs) =
     (case m (c # cs) of Some g \<Rightarrow> Some g | None \<Rightarrow> re_search m cs)"

section \<open>Paths (\<^verbatim>\<open>posixpath\<close>)\<close>

definition dirname :: "string \<Rightarrow> string" where
  "dirname p =
     (let head = rev (dropWhile (\<lambda>c. c \<noteq> CHR ''/'') (rev p))
      in if head \<noteq> [] \<and> head \<noteq> replicate (length head) (CHR ''/'')
         then rev (dropWhile (\<lambda>c. c = CHR ''/'') (rev head))
         else head)"

definition join2 :: "string \<Rightarrow> string \<Rightarrow> string" where
  "join2 path b =
     (if startswith b ''/'' then b
      else if path = [] \<or> last path = CHR ''/'' then path @ b
      else path @ ''/'' @ b)"

definition join :: "string \<Rightarrow> string list \<Rightarrow> string" where
  "join a ps = foldl join2 a ps"

section \<open>The world outside the script\<close>

text \<open>
  \<^verbatim>\<open>subprocess.run(..., capture_output=True, text=True)\<close> either raises (the program
  cannot be started, its output cannot be decoded) or returns a completed process with
  a return code and the two captured texts. The environment gives, for a library path,
  what running \<^verbatim>\<open>nm\<close> on it yields; for a path, whether it exists; and for the path
  of a debugger binary, what running it with \<^verbatim>\<open>--version\<close> yields.
\<close>

record completed_process =
  returncode :: int
  stdout :: string
  stderr :: string

datatype spawn = Fails exn | Completed completed_process

record env =
  run_nm :: "string \<Rightarrow> spawn"
  path_exists :: "string \<Rightarrow> bool"
  run_version :: "string \<Rightarrow> spawn"

section \<open>The constants of the script\<close>

definition REFERENCE_SYMBOL :: string where
  "REFERENCE_SYMBOL = ''_ZN4lldb10SBDebugger10InitializeEv''"

definition INTERNAL_SYMBOLS :: "(string \<times> string) list" where
  "INTERNAL_SYMBOLS =
    [(''_ZN12lldb_private17DataVisualization10Categories11GetCategoryENS_11ConstStringERNSt3__110shared_ptrINS_16TypeCategoryImplEEEb'',
      ''DataVisualization::Categories::GetCategory''),
     (''_ZN12lldb_private17DataVisualization10Categories6EnableERKNSt3__110shared_ptrINS_16TypeCategoryImplEEEj'',
      ''DataVisualization::Categories::Enable''),
     (''_ZN12lldb_private16TypeCategoryImpl14AddTypeSummaryEN4llvm9StringRefEN4lldb18FormatterMatchTypeENSt3__110shared_ptrINS_15TypeSummaryImplEEE'',
      ''TypeCategoryImpl::AddTypeSummary''),
     (''_ZN12lldb_private16TypeCategoryImpl16AddTypeSyntheticEN4llvm9StringRefEN4lldb18FormatterMatchTypeENSt3__110shared_ptrINS_17SyntheticChildrenEEE'',
      ''TypeCategoryImpl::AddTypeSynthetic''),
     (''_ZN12lldb_private16TypeCategoryImpl13AddTypeFormatEN4llvm9StringRefEN4lldb18FormatterMatchTypeENSt3__110shared_ptrINS_14TypeFormatImplEEE'',
      ''TypeCategoryImpl::AddTypeFormat''),
     (''_ZN12lldb_private16TypeCategoryImpl13AddTypeFilterEN4llvm9StringRefEN4lldb18FormatterMatchTypeENSt3__110shared_ptrINS_14TypeFilterImplEEE'',
      ''TypeCategoryImpl::AddTypeFilter''),
     (''_ZN12lldb_private24CXXFunctionSummaryFormatC2ERKNS_15TypeSummaryImpl5FlagsENSt3__18functionIFbRNS_11ValueObjectERNS_6StreamERKNS_18TypeSummaryOptionsEEEEPKcj'',
      ''CXXFunctionSummaryFormat::ctor''),
     (''_ZN12lldb_private13FormatManager11GetCategoryENS_11ConstStringEb'',
      ''FormatManager::GetCategory''),
     (''_ZN12lldb_private10formatters15AddCXXSyntheticENSt3__110shared_ptrINS_16TypeCategoryImplEEENS1_8functionIFPNS_25SyntheticChildrenFrontEndEPNS_20CXXSyntheticChildrenENS2_INS_11ValueObjectEEEEEEPKcN4llvm9StringRefENS_17SyntheticChildren5FlagsEb'',
      ''formatters::AddCXXSynthetic'')]"

section \<open>\<^verbatim>\<open>get_lldb_version\<close>\<close>

definition get_lldb_version :: "env \<Rightarrow> string \<Rightarrow> exn + string" where
  "get_lldb_version e liblldb_path =
     (let lldb_dir = dirname liblldb_path;
          lldb_bin = join lldb_dir [''..'', ''bin'', ''lldb''];
          fallback =
            (case re_search match_libname_at liblldb_path of
               Some g \<Rightarrow> g
             | None \<Rightarrow> ''unknown'')
      in if path_exists e lldb_bin then
           (case run_version e lldb_bin of
              Fails x \<Rightarrow> Inl x
            | Completed result \<Rightarrow>
                (case re_search match_version_at (stdout result) of
                   Some g \<Rightarrow> Inr g
                 | None \<Rightarrow> Inr fallback))
         else Inr fallback)"

section \<open>\<^verbatim>\<open>dump_offsets\<close>\<close>

subsection \<open>The symbol table\<close>

type_synonym symbol_table = "string \<rightharpoonup> int"

text \<open>
  One round of the loop over the lines of \<^verbatim>\<open>nm\<close>'s output: a line of fewer than three
  tokens leaves the table as it is; otherwise the third token, less one leading
  underscore, is bound to the value of the first token, and \<^verbatim>\<open>int\<close> may raise.
\<close>

definition parse_line :: "symbol_table \<Rightarrow> string \<Rightarrow> exn + symbol_table" where
  "parse_line tab line =
     (let parts = split line
      in if length parts \<ge> 3 then
           (let addr = parts ! 0; typ = parts ! 1; name = parts ! 2;
                name = (if startswith name ''_'' then drop 1 name else name)
            in case py_int16 addr of
                 Inl x \<Rightarrow> Inl x
               | Inr a \<Rightarrow> Inr (tab(name \<mapsto> a)))
         else Inr tab)"

fun parse_lines :: "symbol_table \<Rightarrow> string list \<Rightarrow> exn + symbol_table" where
  "parse_lines tab [] = Inr tab"
| "parse_lines tab (line # lines) =
     (case parse_line tab line of
        Inl x \<Rightarrow> Inl x
      | Inr tab' \<Rightarrow> parse_lines tab' lines)"

definition parse_nm :: "string \<Rightarrow> exn + symbol_table" where
  "parse_nm out = parse_lines Map.empty (splitlines out)"

subsection \<open>The report\<close>

text \<open>
  A Python \<^verbatim>\<open>dict\<close> whose order matters is a list of pairs with distinct keys: storing
  under a key that is there replaces the value in place, storing under a new key adds
  the pair at the end. The value \<^verbatim>\<open>None\<close> of an entry is \<^term>\<open>None\<close>.
\<close>

fun dict_set :: "('k \<times> 'v) list \<Rightarrow> 'k \<Rightarrow> 'v \<Rightarrow> ('k \<times> 'v) list" where
  "dict_set [] k v = [(k, v)]"
| "dict_set ((k', v') # d) k v =
     (if k' = k then (k, v) # d else (k', v') # dict_set d k v)"

record entry =
  mangled :: string
  offset :: string
  relative :: string

record report =
  version :: string
  reference_symbol :: string
  reference_offset :: string
  symbols :: "(string \<times> entry option) list"

definition warning :: "string \<Rightarrow> string" where
  "warning demangled = ''Warning: '' @ demangled @ '' not found''"

text \<open>
  The loop over the targets, with the lines written to the error stream so far and the
  \<^verbatim>\<open>symbols\<close> dictionary built so far.
\<close>

fun build_offsets ::
  "symbol_table \<Rightarrow> int \<Rightarrow> (string \<times> string) list \<Rightarrow> string list \<Rightarrow>
   (string \<times> entry option) list \<Rightarrow> string list \<times> (string \<times> entry option) list" where
  "build_offsets tab ref_offset [] errs d = (errs, d)"
| "build_offsets tab ref_offset ((mangled_name, demangled) # targets) errs d =
     (case tab mangled_name of
        Some a \<Rightarrow>
          build_offsets tab ref_offset targets errs
            (dict_set d demangled
               (Some \<lparr>mangled = mangled_name, offset = py_hex a,
                      relative = py_hex (a - ref_offset)\<rparr>))
      | None \<Rightarrow>
          build_offsets tab ref_offset targets (errs @ [warning demangled])
            (dict_set d demangled None))"

subsection \<open>The function\<close>

text \<open>
  A call returns a value, leaves through \<^verbatim>\<open>sys.exit\<close>, or raises; beside that it has
  written lines to the error stream.
\<close>

datatype 'a outcome = Returns 'a | SysExit int | Raises exn

text \<open>
  \<open>dump_offsets_on targets\<close> is the function with the target list as a parameter;
  the script's \<^verbatim>\<open>dump_offsets\<close> runs it on \<^const>\<open>INTERNAL_SYMBOLS\<close>.
\<close>

definition dump_offsets_on ::
  "(string \<times> string) list \<Rightarrow> env \<Rightarrow> string \<Rightarrow> string list \<times> report outcome" where
  "dump_offsets_on targets e liblldb_path =
     (case run_nm e liblldb_path of
        Fails x \<Rightarrow> ([], Raises x)
      | Completed result \<Rightarrow>
          if returncode result \<noteq> 0 then
            ([''nm failed: '' @ stderr result], SysExit 1)
          else
            (case parse_nm (stdout result) of
               Inl x \<Rightarrow> ([], Raises x)
             | Inr tab \<Rightarrow>
                 (case tab REFERENCE_SYMBOL of
                    None \<Rightarrow>
                      ([''Reference symbol '' @ REFERENCE_SYMBOL @ '' not found!''],
                       SysExit 1)
                  | Some ref_offset \<Rightarrow>
                      (case get_lldb_version e liblldb_path of
                         Inl x \<Rightarrow> ([], Raises x)
                       | Inr v \<Rightarrow>
                           (let (errs, d) = build_offsets tab ref_offset targets [] []
                            in (errs,
                                Returns \<lparr>version = v,
                                         reference_symbol = REFERENCE_SYMBOL,
                                         reference_offset = py_hex ref_offset,
                                         symbols = d\<rparr>))))))"

definition dump_offsets :: "env \<Rightarrow> string \<Rightarrow> string list \<times> report outcome" where
  "dump_offsets = dump_offsets_on INTERNAL_SYMBOLS"

section \<open>\<^verbatim>\<open>main\<close> and the process\<close>

text \<open>
  What the process leaves behind: its exit status, the documents printed on standard
  output (the report that \<^verbatim>\<open>json.dumps\<close> serialises stands for its text) and the
  error stream, where an uncaught exception leaves a traceback and the status 1.
\<close>

datatype err_item = Line string | Traceback exn

record process =
  exit_status :: int
  printed :: "report list"
  errors :: "err_item list"

definition main_on :: "(string \<times> string) list \<Rightarrow> env \<Rightarrow> string list \<Rightarrow> process" where
  "main_on targets e argv =
     (if length argv < 2 then
        (case argv of
           [] \<Rightarrow> \<lparr>exit_status = 1, printed = [], errors = [Traceback IndexError]\<rparr>
         | prog # _ \<Rightarrow>
             \<lparr>exit_status = 1, printed = [],
              errors = [Line (''Usage: '' @ prog @ '' /path/to/liblldb.dylib'')]\<rparr>)
      else
        (let liblldb_path = argv ! 1
         in case dump_offsets_on targets e liblldb_path of
              (errs, Returns offsets) \<Rightarrow>
                \<lparr>exit_status = 0, printed = [offsets], errors = map Line errs\<rparr>
            | (errs, SysExit n) \<Rightarrow>
                \<lparr>exit_status = n, printed = [], errors = map Line errs\<rparr>
            | (errs, Raises x) \<Rightarrow>
                \<lparr>exit_status = 1, printed = [], errors = map Line errs @ [Traceback x]\<rparr>))"

definition main :: "env \<Rightarrow> string list \<Rightarrow> process" where
  "main = main_on INTERNAL_SYMBOLS"

section \<open>Notions used to state the properties\<close>

text \<open>
  The key a line of \<^verbatim>\<open>nm\<close>'s output is stored under, if it is stored at all: what the
  loop body of \<^const>\<open>parse_line\<close> computes before it calls \<^verbatim>\<open>int\<close>.
\<close>

definition line_key :: "string \<Rightarrow> string option" where
  "line_key line =
     (let parts = split line
      in if length parts \<ge> 3 then
           (let name = parts ! 2
            in Some (if startswith name ''_'' then drop 1 name else name))
         else None)"

text \<open>The file name of a path: what follows its last slash (\<^verbatim>\<open>posixpath.basename\<close>).\<close>

definition basename :: "string \<Rightarrow> string" where
  "basename p = rev (takeWhile (\<lambda>c. c \<noteq> CHR ''/'') (rev p))"

text \<open>The path of the debugger binary that \<^const>\<open>get_lldb_version\<close> looks for.\<close>

definition lldb_bin_of :: "string \<Rightarrow> string" where
  "lldb_bin_of liblldb_path = join (dirname liblldb_path) [''..'', ''bin'', ''lldb'']"

section \<open>Example inputs\<close>

text \<open>
  An environment in which \<^verbatim>\<open>nm\<close> ends with status 0 and has printed \<open>out\<close>, and in
  which no path exists, so that there is no debugger binary to ask for a version.
\<close>

definition nm_env :: "string \<Rightarrow> env" where
  "nm_env out =
     \<lparr>run_nm = (\<lambda>p. Completed \<lparr>returncode = 0, stdout = out, stderr = ''''\<rparr>),
      path_exists = (\<lambda>p. False),
      run_version = (\<lambda>p. Fails OSError)\<rparr>"

text \<open>An environment in which \<^verbatim>\<open>nm\<close> ends with status 1 and an error text.\<close>

definition nm_failing_env :: env where
  "nm_failing_env =
     \<lparr>run_nm = (\<lambda>p. Completed \<lparr>returncode = 1, stdout = '''',
                                  stderr = ''nm: no such file''\<rparr>),
      path_exists = (\<lambda>p. False),
      run_version = (\<lambda>p. Fails OSError)\<rparr>"

text \<open>
  An environment with a debugger binary beside the library that cannot be started:
  the path exists and \<^verbatim>\<open>subprocess.run\<close> raises.
\<close>

definition unrunnable_env :: "string \<Rightarrow> env" where
  "unrunnable_env out =
     \<lparr>run_nm = (\<lambda>p. Completed \<lparr>returncode = 0, stdout = out, stderr = ''''\<rparr>),
      path_exists = (\<lambda>p. p = ''/opt/lib/../bin/lldb''),
      run_version = (\<lambda>p. Fails OSError)\<rparr>"

definition example_argv :: "string list" where
  "example_argv = [''dump_offsets.py'', ''/opt/lib/liblldb.dylib'']"

definition AddTypeSummary_name :: string where
  "AddTypeSummary_name = ''_ZN12lldb_private16TypeCategoryImpl14AddTypeSummaryEN4llvm9StringRefEN4lldb18FormatterMatchTypeENSt3__110shared_ptrINS_15TypeSummaryImplEEE''"

definition AddTypeSummary_target :: "(string \<times> string) list" where
  "AddTypeSummary_target = [(AddTypeSummary_name, ''TypeCategoryImpl::AddTypeSummary'')]"

text \<open>The two-line dump of the end-to-end scenario, with the names as the scenario writes them.\<close>

definition scenario_dump :: string where
  "scenario_dump =
     ''1000 T _ZN4lldb10SBDebugger10InitializeEv'' @ [CHR 0x0A] @
     ''2000 T '' @ AddTypeSummary_name @ [CHR 0x0A]"

text \<open>
  The same dump as \<^verbatim>\<open>nm\<close> prints it where every symbol carries one more leading
  underscore.
\<close>

definition underscored_dump :: string where
  "underscored_dump =
     ''1000 T __ZN4lldb10SBDebugger10InitializeEv'' @ [CHR 0x0A] @
     ''2000 T _'' @ AddTypeSummary_name @ [CHR 0x0A]"

text \<open>
  A dump in which one target lies below the reference symbol, with a line for an
  undefined symbol (two tokens) and an empty line.
\<close>

definition FormatManager_name :: string where
  "FormatManager_name = ''_ZN12lldb_private13FormatManager11GetCategoryENS_11ConstStringEb''"

definition mixed_dump :: string where
  "mixed_dump =
     ''0000000000002000 T __ZN4lldb10SBDebugger10InitializeEv'' @ [CHR 0x0A] @
     ''                 U _malloc'' @ [CHR 0x0A] @
     [CHR 0x0A] @
     ''0000000000001000 t _'' @ FormatManager_name @ '' extra'' @ [CHR 0x0A]"

text \<open>A dump without the reference symbol, and one with a name bound three times.\<close>

definition anchorless_dump :: string where
  "anchorless_dump = ''0000000000001000 t _'' @ FormatManager_name @ [CHR 0x0A]"

definition duplicate_dump :: string where
  "duplicate_dump =
     ''10 T _a'' @ [CHR 0x0A] @ ''20 T _b'' @ [CHR 0x0A] @ ''30 T a'' @ [CHR 0x0A] @
     ''40 T c'' @ [CHR 0x0A]"

text \<open>A library path one of whose directories carries a version, the file name none.\<close>

definition versioned_dir_path :: string where
  "versioned_dir_path = ''/opt/liblldb.1.2.3.dylib/liblldb.dylib''"

section \<open>Lemmas: \<^verbatim>\<open>hex\<close> and \<^verbatim>\<open>int\<close>\<close>

lemma digit_value_hexdigit: "d < 16 \<Longrightarrow> digit_value (hexdigit d) = Some d"
proof -
  assume "d < 16"
  then have "d \<in> {0, 1, 2, 3, 4, 5, 6, 7, 8, 9, 10, 11, 12, 13, 14, 15}" by (simp; arith)
  then show ?thesis
    by (auto simp: hexdigit_def digit_value_def)
qed

lemma hexdigit_not_underscore: "d < 16 \<Longrightarrow> hexdigit d \<noteq> CHR ''_''"
  using digit_value_hexdigit [of d] by (auto simp: digit_value_def)

lemma scan_digits_snoc:
  "scan_digits acc us ds = Some (v, []) \<Longrightarrow> d < 16 \<Longrightarrow>
   scan_digits acc us (ds @ [hexdigit d]) = Some (16 * v + int d, [])"
proof (induction acc us ds rule: scan_digits.induct)
  case (1 acc us)
  then show ?case
    by (simp add: digit_value_hexdigit hexdigit_not_underscore split: if_splits)
next
  case (2 acc us c cs)
  then show ?case
    by (auto split: if_splits option.splits)
qed

lemma scan_digits_hex_nat: "scan_digits 0 False (hex_nat n) = Some (int n, [])"
proof (induction n rule: hex_nat.induct)
  case (1 n)
  show ?case
  proof (cases "n < 16")
    case True
    then show ?thesis
      by (subst hex_nat.simps)
         (simp add: digit_value_hexdigit hexdigit_not_underscore)
  next
    case False
    have "n mod 16 < 16" by simp
    with False 1 have
      "scan_digits 0 False (hex_nat (n div 16) @ [hexdigit (n mod 16)]) =
         Some (16 * int (n div 16) + int (n mod 16), [])"
      by (intro scan_digits_snoc) auto
    moreover have "16 * int (n div 16) + int (n mod 16) = int n"
      by (simp add: zmod_int zdiv_int)
    ultimately show ?thesis
      using False by (subst hex_nat.simps) simp
  qed
qed

lemma hex_nat_head: "\<exists>d cs. d < 16 \<and> hex_nat n = hexdigit d # cs"
proof (induction n rule: hex_nat.induct)
  case (1 n)
  show ?case
  proof (cases "n < 16")
    case True
    then show ?thesis by (subst hex_nat.simps) auto
  next
    case False
    with 1 obtain d cs where "d < 16" "hex_nat (n div 16) = hexdigit d # cs" by blast
    with False show ?thesis by (subst hex_nat.simps) auto
  qed
qed

lemma py_int16_0x: "py_int16 (''0x'' @ hex_nat n) = Inr (int n)"
proof -
  obtain d cs where d: "d < 16" and h: "hex_nat n = hexdigit d # cs"
    using hex_nat_head by blast
  have z: "\<not> is_int_space CHR ''0''" by (simp add: is_int_space_def)
  have "scan_digits 0 False (hexdigit d # cs) = Some (int n, [])"
    using scan_digits_hex_nat [of n] h by simp
  then show ?thesis
    using d h z
    by (simp add: py_int16_def skip_sign_def skip_prefix_def
        hexdigit_not_underscore digit_value_hexdigit)
qed

lemma py_int16_minus_0x: "py_int16 (''-0x'' @ hex_nat n) = Inr (- int n)"
proof -
  obtain d cs where d: "d < 16" and h: "hex_nat n = hexdigit d # cs"
    using hex_nat_head by blast
  have z: "\<not> is_int_space CHR ''-''" by (simp add: is_int_space_def)
  have "scan_digits 0 False (hexdigit d # cs) = Some (int n, [])"
    using scan_digits_hex_nat [of n] h by simp
  then show ?thesis
    using d h z
    by (simp add: py_int16_def skip_sign_def skip_prefix_def
        hexdigit_not_underscore digit_value_hexdigit)
qed

lemma py_int16_py_hex: "py_int16 (py_hex n) = Inr n"
proof (cases "n < 0")
  case True
  then show ?thesis
    using py_int16_minus_0x [of "nat (- n)"] by (simp add: py_hex_def)
next
  case False
  then show ?thesis
    using py_int16_0x [of "nat n"] by (simp add: py_hex_def)
qed

lemma py_hex_inj: "py_hex a = py_hex b \<Longrightarrow> a = b"
proof -
  assume "py_hex a = py_hex b"
  then have "py_int16 (py_hex a) = py_int16 (py_hex b)" by (rule arg_cong)
  then show "a = b" by (simp only: py_int16_py_hex sum.inject)
qed

section \<open>Lemmas: the loop over the targets\<close>

lemma map_of_dict_set: "map_of (dict_set d k v) k' = (if k' = k then Some v else map_of d k')"
  by (induction d k v rule: dict_set.induct) auto

lemma keys_dict_set:
  "map fst (dict_set d k v) = (if k \<in> fst ` set d then map fst d else map fst d @ [k])"
  by (induction d k v rule: dict_set.induct) auto

lemma build_offsets_other:
  "l \<notin> snd ` set ts \<Longrightarrow>
   map_of (snd (build_offsets tab r ts errs d)) l = map_of d l"
  by (induction tab r ts errs d rule: build_offsets.induct)
     (auto simp: map_of_dict_set split: option.splits)

lemma build_offsets_found:
  "distinct (map snd ts) \<Longrightarrow> (m, l) \<in> set ts \<Longrightarrow> tab m = Some a \<Longrightarrow>
   map_of (snd (build_offsets tab r ts errs d)) l =
     Some (Some \<lparr>mangled = m, offset = py_hex a, relative = py_hex (a - r)\<rparr>)"
proof (induction tab r ts errs d rule: build_offsets.induct)
  case (1 tab r errs d)
  then show ?case by simp
next
  case (2 tab r m' l' ts errs d)
  show ?case
  proof (cases "(m, l) = (m', l')")
    case True
    with 2 show ?thesis
      by (simp add: build_offsets_other map_of_dict_set image_iff)
  next
    case False
    with 2 show ?thesis
      by (cases "tab m'") auto
  qed
qed

lemma build_offsets_missing:
  "distinct (map snd ts) \<Longrightarrow> (m, l) \<in> set ts \<Longrightarrow> tab m = None \<Longrightarrow>
   map_of (snd (build_offsets tab r ts errs d)) l = Some None"
proof (induction tab r ts errs d rule: build_offsets.induct)
  case (1 tab r errs d)
  then show ?case by simp
next
  case (2 tab r m' l' ts errs d)
  show ?case
  proof (cases "(m, l) = (m', l')")
    case True
    with 2 show ?thesis
      by (simp add: build_offsets_other map_of_dict_set image_iff)
  next
    case False
    with 2 show ?thesis
      by (cases "tab m'") auto
  qed
qed

lemma build_offsets_errs_mono:
  "set errs \<subseteq> set (fst (build_offsets tab r ts errs d))"
  by (induction tab r ts errs d rule: build_offsets.induct)
     (auto split: option.splits)

lemma build_offsets_warns:
  "(m, l) \<in> set ts \<Longrightarrow> tab m = None \<Longrightarrow>
   warning l \<in> set (fst (build_offsets tab r ts errs d))"
proof (induction tab r ts errs d rule: build_offsets.induct)
  case (1 tab r errs d)
  then show ?case by simp
next
  case (2 tab r m' l' ts errs d)
  show ?case
  proof (cases "(m, l) = (m', l')")
    case True
    with 2 have "warning l \<in> set (errs @ [warning l'])" by simp
    with True 2 show ?thesis
      using build_offsets_errs_mono [of "errs @ [warning l']" tab r ts "dict_set d l' None"]
      by auto
  next
    case False
    with 2 show ?thesis
      by (cases "tab m'") auto
  qed
qed

lemma build_offsets_keys:
  "distinct (map fst d @ map snd ts) \<Longrightarrow>
   map fst (snd (build_offsets tab r ts errs d)) = map fst d @ map snd ts"
  by (induction tab r ts errs d rule: build_offsets.induct)
     (auto simp: keys_dict_set split: option.splits)

lemma dump_offsets_on_report:
  assumes "run_nm e p = Completed res" and "returncode res = 0"
    and "parse_nm (stdout res) = Inr tab" and "tab REFERENCE_SYMBOL = Some r"
    and "get_lldb_version e p = Inr v"
  shows "dump_offsets_on ts e p =
    (fst (build_offsets tab r ts [] []),
     Returns \<lparr>version = v, reference_symbol = REFERENCE_SYMBOL,
              reference_offset = py_hex r,
              symbols = snd (build_offsets tab r ts [] [])\<rparr>)"
  using assms by (simp add: dump_offsets_on_def split: prod.splits)

lemma main_on_report:
  assumes "2 \<le> length argv"
    and "run_nm e (argv ! 1) = Completed res" and "returncode res = 0"
    and "parse_nm (stdout res) = Inr tab" and "tab REFERENCE_SYMBOL = Some r"
    and "get_lldb_version e (argv ! 1) = Inr v"
  shows "main_on ts e argv =
    \<lparr>exit_status = 0,
     printed = [\<lparr>version = v, reference_symbol = REFERENCE_SYMBOL,
                 reference_offset = py_hex r,
                 symbols = snd (build_offsets tab r ts [] [])\<rparr>],
     errors = map Line (fst (build_offsets tab r ts [] []))\<rparr>"
  using assms(1) dump_offsets_on_report [OF assms(2-6), of ts]
  by (simp add: main_on_def)

lemma labels_distinct: "distinct (map snd INTERNAL_SYMBOLS)"
  by (simp add: INTERNAL_SYMBOLS_def)

section \<open>Lemmas: the loader\<close>

lemma py_int16_raises: "py_int16 s = Inl x \<Longrightarrow> x = ValueError"
  by (auto simp: py_int16_def Let_def split: prod.splits list.splits if_splits option.splits)

lemma parse_line_short: "length (split line) < 3 \<Longrightarrow> parse_line tab line = Inr tab"
  by (simp add: parse_line_def)

lemma parse_line_long:
  "3 \<le> length (split line) \<Longrightarrow>
   parse_line tab line =
     (case py_int16 (split line ! 0) of
        Inl x \<Rightarrow> Inl x
      | Inr a \<Rightarrow> Inr (tab(the (line_key line) \<mapsto> a)))"
  by (auto simp: parse_line_def line_key_def Let_def split: sum.splits)

lemma parse_line_tokens:
  "split line = addr # typ # name # rest \<Longrightarrow>
   parse_line tab line =
     (case py_int16 addr of
        Inl x \<Rightarrow> Inl x
      | Inr a \<Rightarrow> Inr (tab((if startswith name ''_'' then drop 1 name else name) \<mapsto> a)))"
  by (simp add: parse_line_def Let_def)

lemma parse_line_other:
  "parse_line tab line = Inr tab' \<Longrightarrow> line_key line \<noteq> Some k \<Longrightarrow> tab' k = tab k"
  by (auto simp: parse_line_def line_key_def Let_def split: if_splits sum.splits)

lemma parse_lines_other:
  "parse_lines tab ls = Inr tab' \<Longrightarrow> \<forall>l \<in> set ls. line_key l \<noteq> Some k \<Longrightarrow> tab' k = tab k"
proof (induction ls arbitrary: tab)
  case Nil
  then show ?case by simp
next
  case (Cons l ls)
  then obtain t where t: "parse_line tab l = Inr t" and r: "parse_lines t ls = Inr tab'"
    by (auto split: sum.splits)
  from Cons.IH [OF r] Cons.prems(2) have "tab' k = t k" by simp
  with parse_line_other [OF t] Cons.prems(2) show ?case by simp
qed

lemma parse_lines_append:
  "parse_lines tab (xs @ ys) =
     (case parse_lines tab xs of Inl x \<Rightarrow> Inl x | Inr t \<Rightarrow> parse_lines t ys)"
  by (induction xs arbitrary: tab) (auto split: sum.splits)

lemma parse_lines_filter:
  "parse_lines tab ls = parse_lines tab (filter (\<lambda>l. 3 \<le> length (split l)) ls)"
  by (induction ls arbitrary: tab) (auto simp: parse_line_short split: sum.splits)

lemma parse_lines_total_iff:
  "(\<exists>tab'. parse_lines tab ls = Inr tab') \<longleftrightarrow>
   (\<forall>l \<in> set ls. 3 \<le> length (split l) \<longrightarrow> (\<exists>a. py_int16 (split l ! 0) = Inr a))"
proof (induction ls arbitrary: tab)
  case Nil
  then show ?case by simp
next
  case (Cons l ls)
  show ?case
  proof (cases "3 \<le> length (split l)")
    case False
    then have "parse_line tab l = Inr tab" by (simp add: parse_line_short)
    with False Cons.IH [of tab] show ?thesis by simp
  next
    case True
    show ?thesis
    proof (cases "py_int16 (split l ! 0)")
      case (Inl x)
      with True show ?thesis by (auto simp: parse_line_long)
    next
      case (Inr a)
      with True have "parse_line tab l = Inr (tab(the (line_key l) \<mapsto> a))"
        by (simp add: parse_line_long)
      then have "(\<exists>tab'. parse_lines tab (l # ls) = Inr tab') \<longleftrightarrow>
          (\<exists>tab'. parse_lines (tab(the (line_key l) \<mapsto> a)) ls = Inr tab')"
        by simp
      also have "\<dots> \<longleftrightarrow>
          (\<forall>l \<in> set ls. 3 \<le> length (split l) \<longrightarrow> (\<exists>a. py_int16 (split l ! 0) = Inr a))"
        by (rule Cons.IH)
      finally show ?thesis using Inr by simp
    qed
  qed
qed

section \<open>Lemmas: the example inputs evaluated\<close>

lemmas loader_defs =
  parse_nm_def splitlines_def is_linebreak_def parse_line_def split_def isspace_def
  startswith_def py_int16_def skip_sign_def skip_prefix_def is_int_space_def
  digit_value_def

lemmas version_defs =
  get_lldb_version_def lldb_bin_of_def dirname_def join_def join2_def startswith_def
  match_libname_at_def match_version_at_def match_lit_def match_triple_def
  match_digits_def isdigit_def

lemma parse_scenario_dump:
  "parse_nm scenario_dump =
     Inr [''ZN4lldb10SBDebugger10InitializeEv'' \<mapsto> 4096,
          drop 1 AddTypeSummary_name \<mapsto> 8192]"
  by (simp add: loader_defs scenario_dump_def AddTypeSummary_name_def)

lemma parse_underscored_dump:
  "parse_nm underscored_dump =
     Inr [REFERENCE_SYMBOL \<mapsto> 4096, AddTypeSummary_name \<mapsto> 8192]"
  by (simp add: loader_defs underscored_dump_def AddTypeSummary_name_def
      REFERENCE_SYMBOL_def)

lemma parse_mixed_dump:
  "parse_nm mixed_dump = Inr [REFERENCE_SYMBOL \<mapsto> 8192, FormatManager_name \<mapsto> 4096]"
  by (simp add: loader_defs mixed_dump_def FormatManager_name_def REFERENCE_SYMBOL_def)

lemma parse_anchorless_dump:
  "parse_nm anchorless_dump = Inr [FormatManager_name \<mapsto> 4096]"
  by (simp add: loader_defs anchorless_dump_def FormatManager_name_def)

lemma splitlines_duplicate_dump:
  "splitlines duplicate_dump = [''10 T _a'', ''20 T _b''] @ ''30 T a'' # [''40 T c'']"
  by (simp add: splitlines_def is_linebreak_def duplicate_dump_def)

lemma parse_duplicate_dump:
  "parse_nm duplicate_dump = Inr [''a'' \<mapsto> 48, ''b'' \<mapsto> 32, ''c'' \<mapsto> 64]"
  by (simp add: loader_defs duplicate_dump_def fun_upd_twist)

lemma version_unknown_example:
  "get_lldb_version (nm_env out) ''/opt/lib/liblldb.dylib'' = Inr ''unknown''"
  by (simp add: version_defs nm_env_def)

lemma hex_examples:
  "py_hex 4096 = ''0x1000''" "py_hex 8192 = ''0x2000''" "py_hex (- 4096) = ''-0x1000''"
  by (simp_all add: py_hex_def hex_nat.simps hexdigit_def)

lemma FormatManager_target:
  "(FormatManager_name, ''FormatManager::GetCategory'') \<in> set INTERNAL_SYMBOLS"
  by (simp add: INTERNAL_SYMBOLS_def FormatManager_name_def)

lemma AddTypeSummary_in_targets:
  "(AddTypeSummary_name, ''TypeCategoryImpl::AddTypeSummary'') \<in> set INTERNAL_SYMBOLS"
  by (simp add: INTERNAL_SYMBOLS_def AddTypeSummary_name_def)

lemma mixed_table:
  "[REFERENCE_SYMBOL \<mapsto> 8192, FormatManager_name \<mapsto> 4096] REFERENCE_SYMBOL = Some (8192::int)"
  "[REFERENCE_SYMBOL \<mapsto> 8192, FormatManager_name \<mapsto> 4096] FormatManager_name = Some (4096::int)"
  "[REFERENCE_SYMBOL \<mapsto> 8192::int, FormatManager_name \<mapsto> 4096] AddTypeSummary_name = None"
  by (simp_all add: REFERENCE_SYMBOL_def FormatManager_name_def AddTypeSummary_name_def)

lemma run_nm_nm_env:
  "run_nm (nm_env out) p = Completed \<lparr>returncode = 0, stdout = out, stderr = ''''\<rparr>"
  by (simp add: nm_env_def)

lemma example_argv_facts:
  "2 \<le> length example_argv" "example_argv ! 1 = ''/opt/lib/liblldb.dylib''"
  by (simp_all add: example_argv_def)

section \<open>The end-to-end scenario\<close>

text \<open>
  Claim C1, as amended. The scenario's dump writes the two names as the script's
  constants spell them. The loader strips one leading underscore from every name it
  reads, so the dump has to carry one underscore more, as \<^verbatim>\<open>nm\<close> prints names on the
  platform the script is written for. For the dump
  \<^verbatim>\<open>1000 T __ZN4lldb10SBDebugger10InitializeEv\<close>, \<^verbatim>\<open>2000 T __ZN12lldb_private...\<close>
  and the target list that holds only the \<^verbatim>\<open>AddTypeSummary\<close> name, under the label
  \<^verbatim>\<open>TypeCategoryImpl::AddTypeSummary\<close>, \<^verbatim>\<open>dump_offsets\<close> returns a report whose
  \<^verbatim>\<open>reference_offset\<close> is \<^verbatim>\<open>0x1000\<close> and whose only entry is the mangled name with
  offset \<^verbatim>\<open>0x2000\<close> and relative offset \<^verbatim>\<open>0x1000\<close>; nothing is written to the
  error stream.
\<close>

theorem scenario_underscored_report:
  assumes "run_nm e p = Completed res" and "returncode res = 0"
    and "stdout res = underscored_dump" and "get_lldb_version e p = Inr v"
  shows "dump_offsets_on AddTypeSummary_target e p =
     ([], Returns \<lparr>version = v,
                   reference_symbol = ''_ZN4lldb10SBDebugger10InitializeEv'',
                   reference_offset = ''0x1000'',
                   symbols = [(''TypeCategoryImpl::AddTypeSummary'',
                               Some \<lparr>mangled = AddTypeSummary_name, offset = ''0x2000'',
                                     relative = ''0x1000''\<rparr>)]\<rparr>)"
proof -
  let ?tab = "[REFERENCE_SYMBOL \<mapsto> 4096, AddTypeSummary_name \<mapsto> 8192]"
  have t: "parse_nm (stdout res) = Inr ?tab"
    unfolding assms(3) by (rule parse_underscored_dump)
  have r: "?tab REFERENCE_SYMBOL = Some 4096"
    by (simp add: REFERENCE_SYMBOL_def AddTypeSummary_name_def)
  have a: "?tab AddTypeSummary_name = Some 8192" by simp
  have b: "build_offsets ?tab 4096 AddTypeSummary_target [] [] =
      ([], [(''TypeCategoryImpl::AddTypeSummary'',
             Some \<lparr>mangled = AddTypeSummary_name, offset = ''0x2000'',
                   relative = ''0x1000''\<rparr>)])"
    unfolding AddTypeSummary_target_def build_offsets.simps a
    by (simp add: hex_examples)
  show ?thesis
    unfolding dump_offsets_on_report [OF assms(1,2) t r assms(4)] b
    by (simp add: hex_examples REFERENCE_SYMBOL_def)
qed

text \<open>
  Witness for C1: the environment in which \<^verbatim>\<open>nm\<close> prints that dump and no debugger
  binary exists.
\<close>

theorem scenario_underscored_report_witness:
  "dump_offsets_on AddTypeSummary_target (nm_env underscored_dump) ''/opt/lib/liblldb.dylib'' =
     ([], Returns \<lparr>version = ''unknown'',
                   reference_symbol = ''_ZN4lldb10SBDebugger10InitializeEv'',
                   reference_offset = ''0x1000'',
                   symbols = [(''TypeCategoryImpl::AddTypeSummary'',
                               Some \<lparr>mangled = AddTypeSummary_name, offset = ''0x2000'',
                                     relative = ''0x1000''\<rparr>)]\<rparr>)"
  by (rule scenario_underscored_report [OF _ _ _ version_unknown_example,
        of _ "\<lparr>returncode = 0, stdout = underscored_dump, stderr = ''''\<rparr>"])
     (simp_all add: nm_env_def)

text \<open>
  Counterexample to C1 as it is written: on the dump
  \<^verbatim>\<open>1000 T _ZN4lldb10SBDebugger10InitializeEv\<close>, \<^verbatim>\<open>2000 T _ZN12lldb_private...\<close> the
  table holds the two names without their underscore, the reference symbol is not among
  its keys, and the function leaves through \<^verbatim>\<open>sys.exit(1)\<close> with no report.
\<close>

theorem scenario_as_written_finds_no_reference:
  "dump_offsets_on AddTypeSummary_target (nm_env scenario_dump) ''/opt/lib/liblldb.dylib'' =
     ([''Reference symbol _ZN4lldb10SBDebugger10InitializeEv not found!''], SysExit 1)"
  by (simp add: dump_offsets_on_def nm_env_def parse_scenario_dump REFERENCE_SYMBOL_def
      AddTypeSummary_name_def)

section \<open>Name normalisation\<close>

text \<open>
  Claim C2. A line that is parsed (three tokens or more, the first a hexadecimal number)
  is stored under its third token less exactly one leading underscore: a raw name
  \<^verbatim>\<open>_Foo\<close> gives the key \<^verbatim>\<open>Foo\<close>, whatever \<^verbatim>\<open>Foo\<close> begins with, and a raw name with
  no leading underscore is the key as it is.
\<close>

theorem leading_underscore_stripped:
  assumes "split line = addr # typ # raw # rest" and "py_int16 addr = Inr a"
  shows "(\<forall>foo. raw = CHR ''_'' # foo \<longrightarrow> parse_line tab line = Inr (tab(foo \<mapsto> a))) \<and>
         (\<not> startswith raw ''_'' \<longrightarrow> parse_line tab line = Inr (tab(raw \<mapsto> a)))"
  using assms by (simp add: parse_line_tokens startswith_def)

text \<open>
  Witness for C2: \<^verbatim>\<open>__Foo\<close> loses one underscore of its two, \<^verbatim>\<open>Foo\<close> none.
\<close>

theorem leading_underscore_stripped_witness:
  "split ''1000 T __Foo'' = [''1000'', ''T'', ''__Foo''] \<and>
   py_int16 ''1000'' = Inr 4096 \<and>
   parse_line Map.empty ''1000 T __Foo'' = Inr [''_Foo'' \<mapsto> 4096] \<and>
   split ''1000 T Foo'' = [''1000'', ''T'', ''Foo''] \<and>
   \<not> startswith ''Foo'' ''_'' \<and>
   parse_line Map.empty ''1000 T Foo'' = Inr [''Foo'' \<mapsto> 4096]"
proof -
  have s1: "split ''1000 T __Foo'' = [''1000'', ''T'', ''__Foo'']"
    by (simp add: split_def isspace_def)
  have s2: "split ''1000 T Foo'' = [''1000'', ''T'', ''Foo'']"
    by (simp add: split_def isspace_def)
  have i: "py_int16 ''1000'' = Inr 4096"
    by (simp add: loader_defs)
  have n: "\<not> startswith ''Foo'' ''_''" by (simp add: startswith_def)
  from leading_underscore_stripped [OF s1 i, of Map.empty]
  have "parse_line Map.empty ''1000 T __Foo'' = Inr [''_Foo'' \<mapsto> 4096]" by simp
  moreover from leading_underscore_stripped [OF s2 i, of Map.empty] n
  have "parse_line Map.empty ''1000 T Foo'' = Inr [''Foo'' \<mapsto> 4096]" by simp
  ultimately show ?thesis using s1 s2 i n by simp
qed

section \<open>Targets that are found\<close>

text \<open>
  Claim C3. When the run reaches the report and the table holds the reference symbol at
  \<open>r\<close> and a target at \<open>a\<close>, the entry under the target's label is not null, its
  \<^verbatim>\<open>offset\<close> is \<^verbatim>\<open>hex(a)\<close> and its \<^verbatim>\<open>relative\<close> is \<^verbatim>\<open>hex(a - r)\<close>, the difference
  of the two integers, negative when the target lies below the reference. The text
  round-trips: \<^verbatim>\<open>int(_, 16)\<close> reads it back as \<open>a - r\<close>, and no other integer has
  the same text.
\<close>

theorem found_target_relative_offset:
  assumes "run_nm e p = Completed res" and "returncode res = 0"
    and "parse_nm (stdout res) = Inr tab" and "tab REFERENCE_SYMBOL = Some r"
    and "get_lldb_version e p = Inr v"
    and "(m, l) \<in> set INTERNAL_SYMBOLS" and "tab m = Some a"
  shows "(\<exists>errs rep. dump_offsets e p = (errs, Returns rep) \<and>
           map_of (symbols rep) l =
             Some (Some \<lparr>mangled = m, offset = py_hex a, relative = py_hex (a - r)\<rparr>)) \<and>
         py_int16 (py_hex (a - r)) = Inr (a - r) \<and>
         (\<forall>n. py_hex n = py_hex (a - r) \<longrightarrow> n = a - r)"
proof -
  have "map_of (snd (build_offsets tab r INTERNAL_SYMBOLS [] [])) l =
      Some (Some \<lparr>mangled = m, offset = py_hex a, relative = py_hex (a - r)\<rparr>)"
    using labels_distinct assms(6,7) by (rule build_offsets_found)
  moreover have "\<forall>n. py_hex n = py_hex (a - r) \<longrightarrow> n = a - r"
    using py_hex_inj by blast
  ultimately show ?thesis
    unfolding dump_offsets_def dump_offsets_on_report [OF assms(1-5)]
    by (simp add: py_int16_py_hex)
qed

text \<open>
  Witness for C3: a target at \<^verbatim>\<open>0x1000\<close> below the reference at \<^verbatim>\<open>0x2000\<close>; the
  relative offset is \<^verbatim>\<open>-0x1000\<close>.
\<close>

theorem found_target_relative_offset_witness:
  "(\<exists>errs rep. dump_offsets (nm_env mixed_dump) ''/opt/lib/liblldb.dylib'' = (errs, Returns rep) \<and>
     map_of (symbols rep) ''FormatManager::GetCategory'' =
       Some (Some \<lparr>mangled = FormatManager_name, offset = ''0x1000'',
                   relative = ''-0x1000''\<rparr>)) \<and>
   py_int16 ''-0x1000'' = Inr (- 4096)"
proof -
  have "parse_nm (stdout \<lparr>returncode = 0, stdout = mixed_dump, stderr = ''''\<rparr>) =
      Inr [REFERENCE_SYMBOL \<mapsto> 8192, FormatManager_name \<mapsto> 4096]"
    by (simp add: parse_mixed_dump)
  from found_target_relative_offset [OF run_nm_nm_env _ this mixed_table(1)
      version_unknown_example FormatManager_target mixed_table(2)]
  show ?thesis by (simp add: hex_examples)
qed

section \<open>The fatal errors\<close>

text \<open>
  Claim C4. When \<^verbatim>\<open>nm\<close> has ended with status 0, its output has been parsed and the
  table has no reference symbol, the process ends with status 1, has printed no report
  and has written one line, the diagnostic, to the error stream.
\<close>

theorem missing_reference_exits_1:
  assumes "2 \<le> length argv"
    and "run_nm e (argv ! 1) = Completed res" and "returncode res = 0"
    and "parse_nm (stdout res) = Inr tab" and "tab REFERENCE_SYMBOL = None"
  shows "main e argv =
     \<lparr>exit_status = 1, printed = [],
      errors = [Line ''Reference symbol _ZN4lldb10SBDebugger10InitializeEv not found!'']\<rparr>"
  using assms
  by (simp add: main_def main_on_def dump_offsets_on_def REFERENCE_SYMBOL_def)

text \<open>Witness for C4: a dump that holds one target and no reference symbol.\<close>

theorem missing_reference_exits_1_witness:
  "parse_nm anchorless_dump = Inr [FormatManager_name \<mapsto> 4096] \<and>
   [FormatManager_name \<mapsto> 4096::int] REFERENCE_SYMBOL = None \<and>
   main (nm_env anchorless_dump) example_argv =
     \<lparr>exit_status = 1, printed = [],
      errors = [Line ''Reference symbol _ZN4lldb10SBDebugger10InitializeEv not found!'']\<rparr>"
proof -
  have t: "parse_nm (stdout \<lparr>returncode = 0, stdout = anchorless_dump, stderr = ''''\<rparr>) =
      Inr [FormatManager_name \<mapsto> 4096]"
    by (simp add: parse_anchorless_dump)
  have n: "[FormatManager_name \<mapsto> 4096] REFERENCE_SYMBOL = None"
    by (simp add: REFERENCE_SYMBOL_def FormatManager_name_def)
  from missing_reference_exits_1 [OF example_argv_facts(1) run_nm_nm_env _ t n]
  show ?thesis using n parse_anchorless_dump by simp
qed

text \<open>
  Claim C5. When \<^verbatim>\<open>nm\<close> ends with a status other than 0, the process ends with status
  1, has printed no report, and the one line on the error stream is \<^verbatim>\<open>nm failed: \<close>
  followed by the error text captured from \<^verbatim>\<open>nm\<close>.
\<close>

theorem nm_failure_exits_1:
  assumes "2 \<le> length argv"
    and "run_nm e (argv ! 1) = Completed res" and "returncode res \<noteq> 0"
  shows "main e argv =
     \<lparr>exit_status = 1, printed = [], errors = [Line (''nm failed: '' @ stderr res)]\<rparr>"
  using assms by (simp add: main_def main_on_def dump_offsets_on_def)

text \<open>Witness for C5: \<^verbatim>\<open>nm\<close> ends with status 1.\<close>

theorem nm_failure_exits_1_witness:
  "main nm_failing_env example_argv =
     \<lparr>exit_status = 1, printed = [], errors = [Line ''nm failed: nm: no such file'']\<rparr>"
proof -
  have "run_nm nm_failing_env (example_argv ! 1) =
      Completed \<lparr>returncode = 1, stdout = '''', stderr = ''nm: no such file''\<rparr>"
    by (simp add: nm_failing_env_def)
  from nm_failure_exits_1 [OF example_argv_facts(1) this]
  show ?thesis by simp
qed

section \<open>Targets that are missing\<close>

text \<open>
  Claim C6, as amended. \<^verbatim>\<open>get_lldb_version\<close> is called before the loop over the
  targets, and what it raises is not caught. On a run in which \<^verbatim>\<open>nm\<close> ended with
  status 0, its output was parsed, the table holds the reference symbol and version
  detection returns a value, every target whose mangled name is not in the table has
  the entry null under its label, and a warning that names the label is on the error
  stream; the loop goes on over the other targets (the report has one key for each
  label, in the order of the list), the report is printed and the process ends with
  status 0.
\<close>

theorem missing_target_null_and_warned:
  assumes "2 \<le> length argv"
    and "run_nm e (argv ! 1) = Completed res" and "returncode res = 0"
    and "parse_nm (stdout res) = Inr tab" and "tab REFERENCE_SYMBOL = Some r"
    and "get_lldb_version e (argv ! 1) = Inr v"
    and "(m, l) \<in> set INTERNAL_SYMBOLS" and "tab m = None"
  shows "\<exists>rep errs. main e argv = \<lparr>exit_status = 0, printed = [rep], errors = errs\<rparr> \<and>
           map_of (symbols rep) l = Some None \<and>
           Line (''Warning: '' @ l @ '' not found'') \<in> set errs \<and>
           map fst (symbols rep) = map snd INTERNAL_SYMBOLS"
proof -
  let ?b = "build_offsets tab r INTERNAL_SYMBOLS [] []"
  have "map_of (snd ?b) l = Some None"
    using labels_distinct assms(7,8) by (rule build_offsets_missing)
  moreover have "warning l \<in> set (fst ?b)"
    using assms(7,8) by (rule build_offsets_warns)
  then have "Line (''Warning: '' @ l @ '' not found'') \<in> set (map Line (fst ?b))"
    by (simp add: warning_def)
  moreover have "map fst (snd ?b) = map snd INTERNAL_SYMBOLS"
    using build_offsets_keys [of "[]" INTERNAL_SYMBOLS tab r "[]"] labels_distinct by simp
  ultimately show ?thesis
    unfolding main_def main_on_report [OF assms(1-6)] by simp
qed

text \<open>
  Witness for C6: the dump holds the reference symbol and one target; the target
  \<^verbatim>\<open>TypeCategoryImpl::AddTypeSummary\<close> is among the missing ones.
\<close>

theorem missing_target_null_and_warned_witness:
  "\<exists>rep errs. main (nm_env mixed_dump) example_argv =
       \<lparr>exit_status = 0, printed = [rep], errors = errs\<rparr> \<and>
     map_of (symbols rep) ''TypeCategoryImpl::AddTypeSummary'' = Some None \<and>
     Line ''Warning: TypeCategoryImpl::AddTypeSummary not found'' \<in> set errs \<and>
     map fst (symbols rep) = map snd INTERNAL_SYMBOLS"
proof -
  have t: "parse_nm (stdout \<lparr>returncode = 0, stdout = mixed_dump, stderr = ''''\<rparr>) =
      Inr [REFERENCE_SYMBOL \<mapsto> 8192, FormatManager_name \<mapsto> 4096]"
    by (simp add: parse_mixed_dump)
  have v: "get_lldb_version (nm_env mixed_dump) (example_argv ! 1) = Inr ''unknown''"
    by (simp only: example_argv_facts version_unknown_example)
  from missing_target_null_and_warned [OF example_argv_facts(1) run_nm_nm_env _ t
      mixed_table(1) v AddTypeSummary_in_targets mixed_table(3)]
  show ?thesis by simp
qed

text \<open>
  Counterexample to C6 as it is written: the table holds the reference symbol, the
  target \<^verbatim>\<open>TypeCategoryImpl::AddTypeSummary\<close> is not in it, and the debugger binary
  beside the library exists and cannot be started. The exception of
  \<^verbatim>\<open>subprocess.run\<close> leaves \<^verbatim>\<open>get_lldb_version\<close> and \<^verbatim>\<open>dump_offsets\<close> before the
  loop over the targets: the process ends with status 1 and a traceback, with no report
  and no warning.
\<close>

theorem missing_target_unwarned_when_version_raises:
  "parse_nm mixed_dump = Inr [REFERENCE_SYMBOL \<mapsto> 8192, FormatManager_name \<mapsto> 4096] \<and>
   [REFERENCE_SYMBOL \<mapsto> 8192::int, FormatManager_name \<mapsto> 4096] REFERENCE_SYMBOL = Some 8192 \<and>
   (AddTypeSummary_name, ''TypeCategoryImpl::AddTypeSummary'') \<in> set INTERNAL_SYMBOLS \<and>
   [REFERENCE_SYMBOL \<mapsto> 8192::int, FormatManager_name \<mapsto> 4096] AddTypeSummary_name = None \<and>
   get_lldb_version (unrunnable_env mixed_dump) ''/opt/lib/liblldb.dylib'' = Inl OSError \<and>
   main (unrunnable_env mixed_dump) example_argv =
     \<lparr>exit_status = 1, printed = [], errors = [Traceback OSError]\<rparr>"
proof -
  have v: "get_lldb_version (unrunnable_env mixed_dump) ''/opt/lib/liblldb.dylib'' = Inl OSError"
    by (simp add: version_defs unrunnable_env_def)
  have n: "run_nm (unrunnable_env mixed_dump) ''/opt/lib/liblldb.dylib'' =
      Completed \<lparr>returncode = 0, stdout = mixed_dump, stderr = ''''\<rparr>"
    by (simp add: unrunnable_env_def)
  have "dump_offsets_on INTERNAL_SYMBOLS (unrunnable_env mixed_dump) ''/opt/lib/liblldb.dylib'' =
      ([], Raises OSError)"
    by (simp add: dump_offsets_on_def n parse_mixed_dump mixed_table(1) v)
  then have "main (unrunnable_env mixed_dump) example_argv =
      \<lparr>exit_status = 1, printed = [], errors = [Traceback OSError]\<rparr>"
    by (simp add: main_def main_on_def example_argv_def)
  with v show ?thesis
    using parse_mixed_dump mixed_table AddTypeSummary_in_targets by simp
qed

section \<open>Lines that do not qualify\<close>

lemma line_key_Some: "line_key line = Some k \<Longrightarrow> 3 \<le> length (split line)"
  by (simp add: line_key_def Let_def split: if_splits)

text \<open>
  Claim C7. A line with fewer than three tokens leaves the table as it is and raises
  nothing; a line with three tokens or more is read by position, the first token as the
  address and the third as the name, and neither the second token nor any token after
  the third has a part in the result. Over a whole output, the table is the one built
  from the lines of three tokens or more alone.
\<close>

theorem short_lines_skipped:
  "(length (split line) < 3 \<longrightarrow> parse_line tab line = Inr tab) \<and>
   (split line = addr # typ # name # rest \<longrightarrow>
      parse_line tab line =
        (case py_int16 addr of
           Inl x \<Rightarrow> Inl x
         | Inr a \<Rightarrow> Inr (tab((if startswith name ''_'' then drop 1 name else name) \<mapsto> a)))) \<and>
   parse_nm out =
     parse_lines Map.empty (filter (\<lambda>l. 3 \<le> length (split l)) (splitlines out))"
  using parse_lines_filter [of Map.empty "splitlines out"]
  by (simp add: parse_line_short parse_line_tokens parse_nm_def)

text \<open>
  Witness for C7: a line for an undefined symbol (two tokens), an empty line, and a line
  with two tokens after the name.
\<close>

theorem short_lines_skipped_witness:
  "length (split ''                 U _malloc'') < 3 \<and>
   parse_line [''a'' \<mapsto> 1] ''                 U _malloc'' = Inr [''a'' \<mapsto> 1] \<and>
   parse_line [''a'' \<mapsto> 1] '''' = Inr [''a'' \<mapsto> 1] \<and>
   split ''1000 t _foo extra more'' = [''1000'', ''t'', ''_foo'', ''extra'', ''more''] \<and>
   parse_line [''a'' \<mapsto> 1] ''1000 t _foo extra more'' = Inr [''a'' \<mapsto> 1, ''foo'' \<mapsto> 4096] \<and>
   parse_nm mixed_dump =
     parse_lines Map.empty (filter (\<lambda>l. 3 \<le> length (split l)) (splitlines mixed_dump)) \<and>
   parse_nm mixed_dump = Inr [REFERENCE_SYMBOL \<mapsto> 8192, FormatManager_name \<mapsto> 4096]"
proof -
  have s1: "length (split ''                 U _malloc'') < 3"
    by (simp add: split_def isspace_def)
  have s2: "length (split '''') < 3"
    by (simp add: split_def)
  have s3: "split ''1000 t _foo extra more'' = [''1000'', ''t'', ''_foo'', ''extra'', ''more'']"
    by (simp add: split_def isspace_def)
  have i: "py_int16 ''1000'' = Inr 4096"
    by (simp add: loader_defs)
  note a = short_lines_skipped [of "''                 U _malloc''" "[''a'' \<mapsto> 1]"
      "''1000''" "''t''" "''_foo''" "[''extra'', ''more'']" mixed_dump]
  note b = short_lines_skipped [of "''''" "[''a'' \<mapsto> 1]" "''1000''" "''t''" "''_foo''"
      "[''extra'', ''more'']" mixed_dump]
  note c = short_lines_skipped [of "''1000 t _foo extra more''" "[''a'' \<mapsto> 1]"
      "''1000''" "''t''" "''_foo''" "[''extra'', ''more'']" mixed_dump]
  from a s1 have "parse_line [''a'' \<mapsto> 1] ''                 U _malloc'' = Inr [''a'' \<mapsto> 1]"
    by blast
  moreover from b s2 have "parse_line [''a'' \<mapsto> 1] '''' = Inr [''a'' \<mapsto> 1]"
    by blast
  moreover from c s3 i
  have "parse_line [''a'' \<mapsto> 1] ''1000 t _foo extra more'' = Inr [''a'' \<mapsto> 1, ''foo'' \<mapsto> 4096]"
    by (simp add: startswith_def)
  moreover from c have "parse_nm mixed_dump =
     parse_lines Map.empty (filter (\<lambda>l. 3 \<le> length (split l)) (splitlines mixed_dump))"
    by blast
  ultimately show ?thesis using s1 s3 parse_mixed_dump by simp
qed

section \<open>Names bound more than once\<close>

text \<open>
  Claim C8. When the output has been parsed, a line that binds the key \<open>k\<close> and is
  followed by no other line that binds \<open>k\<close> decides the table at \<open>k\<close>: the
  value is the address of that line, whatever lines before it bound \<open>k\<close> to. Two
  raw names that differ only by one leading underscore bind the same key.
\<close>

theorem last_occurrence_wins:
  assumes "parse_nm out = Inr tab" and "splitlines out = pre @ line # post"
    and "line_key line = Some k" and "\<forall>l \<in> set post. line_key l \<noteq> Some k"
  shows "\<exists>a. py_int16 (split line ! 0) = Inr a \<and> tab k = Some a"
proof -
  from assms(1,2) have "parse_lines Map.empty (pre @ line # post) = Inr tab"
    by (simp add: parse_nm_def)
  then obtain t1 t2 where t1: "parse_lines Map.empty pre = Inr t1"
    and t2: "parse_line t1 line = Inr t2" and t3: "parse_lines t2 post = Inr tab"
    by (auto simp: parse_lines_append split: sum.splits)
  from assms(3) have "3 \<le> length (split line)" by (rule line_key_Some)
  with t2 assms(3) obtain a where a: "py_int16 (split line ! 0) = Inr a"
    and "t2 = t1(k \<mapsto> a)"
    by (auto simp: parse_line_long split: sum.splits)
  then have "t2 k = Some a" by simp
  with parse_lines_other [OF t3 assms(4)] a show ?thesis by simp
qed

text \<open>
  Witness for C8: \<^verbatim>\<open>_a\<close> at \<^verbatim>\<open>0x10\<close>, then \<^verbatim>\<open>a\<close> at \<^verbatim>\<open>0x30\<close>; the key \<^verbatim>\<open>a\<close>
  ends at \<^verbatim>\<open>0x30\<close>.
\<close>

theorem last_occurrence_wins_witness:
  "splitlines duplicate_dump = [''10 T _a'', ''20 T _b''] @ ''30 T a'' # [''40 T c''] \<and>
   line_key ''10 T _a'' = Some ''a'' \<and> line_key ''30 T a'' = Some ''a'' \<and>
   line_key ''40 T c'' = Some ''c'' \<and>
   parse_nm duplicate_dump = Inr [''a'' \<mapsto> 48, ''b'' \<mapsto> 32, ''c'' \<mapsto> 64] \<and>
   (\<exists>a. py_int16 (split ''30 T a'' ! 0) = Inr a \<and>
        [''a'' \<mapsto> 48, ''b'' \<mapsto> 32, ''c'' \<mapsto> (64::int)] ''a'' = Some a)"
proof -
  have k: "line_key ''10 T _a'' = Some ''a''" "line_key ''30 T a'' = Some ''a''"
    "line_key ''40 T c'' = Some ''c''"
    by (simp_all add: line_key_def split_def isspace_def startswith_def)
  from k(3) have p: "\<forall>l \<in> set [''40 T c'']. line_key l \<noteq> Some ''a''" by simp
  from last_occurrence_wins [OF parse_duplicate_dump splitlines_duplicate_dump k(2) p]
  show ?thesis using k splitlines_duplicate_dump parse_duplicate_dump by simp
qed

section \<open>The version\<close>

text \<open>
  What \<^const>\<open>get_lldb_version\<close> returns when the debugger binary is not there, or ran
  and printed no version: the match of the second pattern in the path, or
  \<^verbatim>\<open>unknown\<close>.
\<close>

lemma get_lldb_version_fallback:
  assumes "\<not> path_exists e (lldb_bin_of p) \<or>
      (\<exists>res. run_version e (lldb_bin_of p) = Completed res \<and>
             re_search match_version_at (stdout res) = None)"
  shows "get_lldb_version e p =
     Inr (case re_search match_libname_at p of Some g \<Rightarrow> g | None \<Rightarrow> ''unknown'')"
  using assms by (auto simp: get_lldb_version_def lldb_bin_of_def Let_def)

text \<open>
  Claim C9 says that with no debugger binary beside the library and no version triple in
  the library's file name the version of the report is \<^verbatim>\<open>unknown\<close>, and the comment
  above the second search says that the version is taken from the library name. The
  search runs over the whole path that was given. At the path
  \<^verbatim>\<open>/opt/liblldb.1.2.3.dylib/liblldb.dylib\<close>, with no debugger binary, the file name
  \<^verbatim>\<open>liblldb.dylib\<close> holds no version triple, and the directory name gives the
  version \<^verbatim>\<open>1.2.3\<close> of the report.
\<close>

theorem version_from_directory_name:
  "\<not> path_exists (nm_env underscored_dump) (lldb_bin_of versioned_dir_path) \<and>
   basename versioned_dir_path = ''liblldb.dylib'' \<and>
   re_search match_triple (basename versioned_dir_path) = None \<and>
   get_lldb_version (nm_env underscored_dump) versioned_dir_path = Inr ''1.2.3'' \<and>
   map version (printed (main (nm_env underscored_dump) [''dump_offsets.py'', versioned_dir_path])) =
     [''1.2.3'']"
proof -
  have b: "basename versioned_dir_path = ''liblldb.dylib''"
    by (simp add: basename_def versioned_dir_path_def)
  have t: "re_search match_triple ''liblldb.dylib'' = None"
    by (simp add: version_defs)
  have v: "get_lldb_version (nm_env underscored_dump) versioned_dir_path = Inr ''1.2.3''"
    by (simp add: version_defs nm_env_def versioned_dir_path_def)
  have p: "parse_nm (stdout \<lparr>returncode = 0, stdout = underscored_dump, stderr = ''''\<rparr>) =
      Inr [REFERENCE_SYMBOL \<mapsto> 4096, AddTypeSummary_name \<mapsto> 8192]"
    by (simp add: parse_underscored_dump)
  have r: "[REFERENCE_SYMBOL \<mapsto> 4096, AddTypeSummary_name \<mapsto> 8192] REFERENCE_SYMBOL = Some 4096"
    by (simp add: REFERENCE_SYMBOL_def AddTypeSummary_name_def)
  have "map version (printed (main (nm_env underscored_dump)
      [''dump_offsets.py'', versioned_dir_path])) = [''1.2.3'']"
    unfolding main_def
    by (subst main_on_report [OF _ _ _ p r, where v = "''1.2.3''"])
       (simp_all add: run_nm_nm_env v)
  with b t v show ?thesis by (simp add: nm_env_def)
qed

section \<open>Addresses that are not hexadecimal\<close>

text \<open>
  Claim C10. There is a line of three tokens whose first token is no hexadecimal
  numeral, and on it the loader raises \<^verbatim>\<open>ValueError\<close>: nothing catches it, so
  \<^verbatim>\<open>dump_offsets\<close> raises and the process ends with a traceback, status 1 and no
  report. The loop over the lines ends with a table exactly when the first token of
  every line of three tokens or more is read by \<^verbatim>\<open>int(_, 16)\<close>.
\<close>

theorem bad_address_raises:
  "(\<exists>line. 3 \<le> length (split line) \<and> py_int16 (split line ! 0) = Inl ValueError \<and>
      parse_nm line = Inl ValueError \<and>
      dump_offsets (nm_env line) p = ([], Raises ValueError) \<and>
      main (nm_env line) [prog, p] =
        \<lparr>exit_status = 1, printed = [], errors = [Traceback ValueError]\<rparr>) \<and>
   ((\<exists>tab'. parse_lines tab ls = Inr tab') \<longleftrightarrow>
    (\<forall>l \<in> set ls. 3 \<le> length (split l) \<longrightarrow> (\<exists>a. py_int16 (split l ! 0) = Inr a)))"
proof -
  let ?line = "''zzzz T foo''"
  have s: "split ?line = [''zzzz'', ''T'', ''foo'']"
    by (simp add: split_def isspace_def)
  have i: "py_int16 ''zzzz'' = Inl ValueError"
    by (simp add: loader_defs)
  have n: "parse_nm ?line = Inl ValueError"
    by (simp add: loader_defs)
  have d: "dump_offsets (nm_env ?line) p = ([], Raises ValueError)"
    by (simp add: dump_offsets_def dump_offsets_on_def run_nm_nm_env n)
  have m: "main (nm_env ?line) [prog, p] =
      \<lparr>exit_status = 1, printed = [], errors = [Traceback ValueError]\<rparr>"
    using d by (simp add: main_def main_on_def dump_offsets_def)
  from s i n d m have "3 \<le> length (split ?line) \<and> py_int16 (split ?line ! 0) = Inl ValueError \<and>
      parse_nm ?line = Inl ValueError \<and>
      dump_offsets (nm_env ?line) p = ([], Raises ValueError) \<and>
      main (nm_env ?line) [prog, p] =
        \<lparr>exit_status = 1, printed = [], errors = [Traceback ValueError]\<rparr>"
    by simp
  then show ?thesis using parse_lines_total_iff [of tab ls] by blast
qed

text \<open>
  Witness for C10: the same lines with and without the line \<^verbatim>\<open>zzzz T foo\<close>.
\<close>

theorem bad_address_raises_witness:
  "3 \<le> length (split ''zzzz T foo'') \<and>
   py_int16 (split ''zzzz T foo'' ! 0) = Inl ValueError \<and>
   \<not> (\<exists>tab'. parse_lines Map.empty [''10 T _a'', ''zzzz T foo'', ''U x''] = Inr tab') \<and>
   (\<exists>tab'. parse_lines Map.empty [''10 T _a'', ''U x''] = Inr tab')"
proof -
  have s: "split ''zzzz T foo'' = [''zzzz'', ''T'', ''foo'']"
    "split ''10 T _a'' = [''10'', ''T'', ''_a'']" "split ''U x'' = [''U'', ''x'']"
    by (simp_all add: split_def isspace_def)
  have i: "py_int16 ''zzzz'' = Inl ValueError" "py_int16 ''10'' = Inr 16"
    by (simp_all add: loader_defs)
  note a = bad_address_raises [of "''/opt/lib/liblldb.dylib''" "''dump_offsets.py''" Map.empty
      "[''10 T _a'', ''zzzz T foo'', ''U x'']"]
  note b = bad_address_raises [of "''/opt/lib/liblldb.dylib''" "''dump_offsets.py''" Map.empty
      "[''10 T _a'', ''U x'']"]
  from a s i have "\<not> (\<exists>tab'. parse_lines Map.empty [''10 T _a'', ''zzzz T foo'', ''U x''] = Inr tab')"
    by simp
  moreover from b s i have "\<exists>tab'. parse_lines Map.empty [''10 T _a'', ''U x''] = Inr tab'"
    by simp
  ultimately show ?thesis using s i by simp
qed

end
